theory Spec2Isabelle
  imports Complex_Main "HOL-Library.Sublist" "HOL-Library.Multiset"
begin

section \<open>Network centrality workflow (CPAC/network_centrality/network_centrality.py)\<close>

subsection \<open>Python values and integer rendering\<close>

text \<open>
  Trait values of the command descriptor. A \<open>File\<close> trait holds a path, so it is a
  \<open>PyStr\<close>; Python's \<open>Undefined\<close> is the absence of a value (\<open>None\<close> in a map).
\<close>

datatype pyval = PyStr string | PyFloat real | PyInt int | PyBool bool

text \<open>\<open>str(i)\<close> and \<open>'%d' % i\<close> of a Python int: its decimal digits, with a leading minus.\<close>

fun digits10 :: "nat \<Rightarrow> string" where
  "digits10 n =
     (if n < 10 then [''0123456789'' ! n]
      else digits10 (n div 10) @ [''0123456789'' ! (n mod 10)])"

declare digits10.simps [simp del]

definition str_int :: "int \<Rightarrow> string" where
  "str_int i = (if i < 0 then CHR ''-'' # digits10 (nat (- i)) else digits10 (nat i))"

subsection \<open>The nipype workflow graph built by \<open>create_network_centrality_wf\<close>\<close>

text \<open>
  The three interfaces the function instantiates: the command descriptor with its
  \<open>environ\<close> dictionary, \<open>util.IdentityInterface(fields=...)\<close> and
  \<open>util.Function(input_names=..., output_names=..., function=...)\<close>.
\<close>

datatype interface =
    AfniDegreeCentrality "(string \<times> string) list"
  | IdentityInterface "string list"
  | Function "string list" "string list" string

text \<open>
  A \<open>pe.Node\<close>: its name, its interface, the inputs assigned on it, and the
  \<open>num_threads\<close> and \<open>memory\<close> attributes the function sets on the interface.
\<close>

record node =
  node_name :: string
  node_interface :: interface
  node_inputs :: "(string \<times> pyval) list"
  interface_num_threads :: "int option"
  interface_memory :: "int option"

text \<open>
  A \<open>pe.Workflow\<close>: its name, the nodes of its graph and the connections, each
  (source node, source field, destination node, destination field).
\<close>

record workflow =
  workflow_name :: string
  graph_nodes :: "node list"
  connections :: "(string \<times> string \<times> string \<times> string) list"

definition Workflow :: "string \<Rightarrow> workflow" where
  "Workflow nm = \<lparr>workflow_name = nm, graph_nodes = [], connections = []\<rparr>"

text \<open>
  \<open>flow.connect(src, src_field, dst, dst_field)\<close>: adds the two nodes to the graph when
  they are not in it yet, and records the connection.
\<close>

definition add_node :: "node \<Rightarrow> node list \<Rightarrow> node list" where
  "add_node n ns = (if n \<in> set ns then ns else ns @ [n])"

definition connect :: "workflow \<Rightarrow> node \<Rightarrow> string \<Rightarrow> node \<Rightarrow> string \<Rightarrow> workflow" where
  "connect flow src src_field dst dst_field =
     flow\<lparr>graph_nodes := add_node dst (add_node src (graph_nodes flow)),
        connections :=
          connections flow @ [(node_name src, src_field, node_name dst, dst_field)]\<rparr>"

text \<open>
  The nodes of lines 143-157 and 165-177. The main node gets \<open>out_1d\<close> assigned only
  when \<open>run_eigen\<close> is set (line 162).
\<close>

definition afni_centrality_node :: "int \<Rightarrow> int \<Rightarrow> bool \<Rightarrow> node" where
  "afni_centrality_node num_threads memory run_eigen =
     \<lparr>node_name = ''afni_degree_centrality'',
      node_interface = AfniDegreeCentrality [(''OMP_NUM_THREADS'', str_int num_threads)],
      node_inputs = (if run_eigen then [(''out_1d'', PyStr ''similarity_matrix.1D'')] else []),
      interface_num_threads = Some num_threads,
      interface_memory = Some memory\<rparr>"

definition output_node :: node where
  "output_node =
     \<lparr>node_name = ''output_node'',
      node_interface = IdentityInterface [''degree_output'', ''eigen_output'', ''one_d_output''],
      node_inputs = [],
      interface_num_threads = None,
      interface_memory = None\<rparr>"

definition run_eigen_node :: "int \<Rightarrow> int \<Rightarrow> node" where
  "run_eigen_node num_threads memory =
     \<lparr>node_name = ''run_eigen_node'',
      node_interface =
        Function [''one_d_file'', ''num_threads'', ''mask_file''] [''eigen_outfile'']
          ''calc_eigen_from_1d'',
      node_inputs = [(''num_threads'', PyInt num_threads)],
      interface_num_threads = Some num_threads,
      interface_memory = Some memory\<rparr>"

definition create_network_centrality_wf :: "string \<Rightarrow> int \<Rightarrow> int \<Rightarrow> bool \<Rightarrow> workflow" where
  "create_network_centrality_wf wf_name num_threads memory run_eigen =
     (let centrality_wf = Workflow ''afni_centrality'';
          afni = afni_centrality_node num_threads memory run_eigen;
          centrality_wf =
            (if run_eigen then
               (let eig = run_eigen_node num_threads memory;
                    wf1 = connect centrality_wf afni ''one_d_outfile'' eig ''one_d_file''
                in connect wf1 eig ''eigen_outfile'' output_node ''eigen_output'')
             else centrality_wf);
          centrality_wf = connect centrality_wf afni ''degree_outfile'' output_node ''degree_output''
      in connect centrality_wf afni ''one_d_outfile'' output_node ''one_d_output'')"

subsection \<open>The command descriptor \<open>afniDegreeCentralityInputSpec\<close>\<close>

text \<open>
  One declared parameter: its name, its trait type, the \<open>argstr\<close> template, the
  \<open>position\<close> metadata when given, and the \<open>mandatory\<close> and \<open>exists\<close> metadata
  (absent metadata is \<open>False\<close>). The \<open>desc\<close> strings are documentation and left out.
\<close>

datatype trait_type = TStr | TFile | TFloat | TInt | TBool

record trait =
  trait_name :: string
  trait_type :: trait_type
  argstr :: string
  position :: "int option"
  mandatory :: bool
  must_exist :: bool

definition afniDegreeCentralityInputSpec :: "trait list" where
  "afniDegreeCentralityInputSpec =
     [\<lparr>trait_name = ''prefix'', trait_type = TStr, argstr = ''-prefix %s'',
        position = Some 0, mandatory = True, must_exist = True\<rparr>,
      \<lparr>trait_name = ''mask'', trait_type = TFile, argstr = ''-mask %s'',
        position = Some 1, mandatory = False, must_exist = True\<rparr>,
      \<lparr>trait_name = ''thresh'', trait_type = TFloat, argstr = ''-thresh %f'',
        position = Some 2, mandatory = False, must_exist = False\<rparr>,
      \<lparr>trait_name = ''sparsity'', trait_type = TFloat, argstr = ''-sparsity %f'',
        position = Some 3, mandatory = False, must_exist = False\<rparr>,
      \<lparr>trait_name = ''out_1d'', trait_type = TStr, argstr = ''-out1D %s'',
        position = Some 4, mandatory = False, must_exist = False\<rparr>,
      \<lparr>trait_name = ''polort'', trait_type = TInt, argstr = ''-polort %d'',
        position = Some 5, mandatory = False, must_exist = False\<rparr>,
      \<lparr>trait_name = ''autoclip'', trait_type = TBool, argstr = ''-autoclip'',
        position = None, mandatory = False, must_exist = False\<rparr>,
      \<lparr>trait_name = ''automask'', trait_type = TBool, argstr = ''-automask'',
        position = None, mandatory = False, must_exist = False\<rparr>,
      \<lparr>trait_name = ''dataset'', trait_type = TFile, argstr = ''%s'',
        position = Some (- 1), mandatory = False, must_exist = True\<rparr>]"

definition cmd :: string where
  "cmd = ''3dDegreeCentrality''"

text \<open>
  The inputs object: a value per parameter name, \<open>None\<close> where the parameter is
  \<open>Undefined\<close>. Parameters are supplied by assignments \<open>inputs.name = value\<close>, run in
  order.
\<close>

type_synonym inputs = "string \<rightharpoonup> pyval"

definition assign :: "inputs \<Rightarrow> string \<times> pyval \<Rightarrow> inputs" where
  "assign inp kv = inp(fst kv \<mapsto> snd kv)"

definition inputs_of :: "(string \<times> pyval) list \<Rightarrow> inputs" where
  "inputs_of supplied = foldl assign Map.empty supplied"

text \<open>
  Python truth of a trait value, as \<open>if self.inputs.out_1d:\<close> tests it. \<open>Undefined\<close> is
  false (nipype gives it length 0), and so are the empty string, zero and \<open>False\<close>.
\<close>

fun truthy :: "pyval option \<Rightarrow> bool" where
  "truthy None = False"
| "truthy (Some (PyStr s)) = (s \<noteq> [])"
| "truthy (Some (PyFloat x)) = (x \<noteq> 0)"
| "truthy (Some (PyInt i)) = (i \<noteq> 0)"
| "truthy (Some (PyBool b)) = b"

subsection \<open>Errors and the process state\<close>

text \<open>
  The exceptions that can end a call: a mandatory parameter that is not set, a
  non-zero exit status of the external command, \<open>os.path.abspath\<close> of a value that is
  not a string, an unreadable mask image, a malformed similarity-matrix file, the
  solver's \<open>ArpackNoConvergence\<close>, and a failure while the result image is mapped.
\<close>

datatype error =
    MandatoryInputMissing string
  | CommandFailed int
  | TypeError
  | ImageFileError
  | ParseError
  | ArpackNoConvergence
  | MapError

text \<open>
  What of the process and its surroundings the module reads or changes: the process
  environment \<open>os.environ\<close>, the working directory, the paths written so far, and the
  argument vectors of the external commands started so far.
\<close>

record world =
  os_environ :: "string \<rightharpoonup> string"
  getcwd :: string
  files :: "string list"
  started :: "string list list"

subsection \<open>\<open>os.path.abspath\<close> (posixpath)\<close>

definition isabs :: "string \<Rightarrow> bool" where
  "isabs s = (case s of [] \<Rightarrow> False | c # _ \<Rightarrow> c = CHR ''/'')"

definition endswith_slash :: "string \<Rightarrow> bool" where
  "endswith_slash s = (case rev s of [] \<Rightarrow> False | c # _ \<Rightarrow> c = CHR ''/'')"

definition join :: "string \<Rightarrow> string \<Rightarrow> string" where
  "join a b =
     (if isabs b then b
      else if a = [] \<or> endswith_slash a then a @ b
      else a @ ''/'' @ b)"

text \<open>\<open>path.split('/')\<close>: the pieces between slashes, empty pieces included.\<close>

fun split_slash :: "string \<Rightarrow> string list" where
  "split_slash [] = [[]]"
| "split_slash (c # cs) =
     (if c = CHR ''/'' then [] # split_slash cs
      else (case split_slash cs of [] \<Rightarrow> [[c]] | p # ps \<Rightarrow> (c # p) # ps))"

text \<open>\<open>'/'.join(comps)\<close>.\<close>

fun join_slash :: "string list \<Rightarrow> string" where
  "join_slash [] = []"
| "join_slash [p] = p"
| "join_slash (p # q # ps) = p @ ''/'' @ join_slash (q # ps)"

text \<open>
  The loop of \<open>normpath\<close> over the components: \<open>new_comps\<close> is the accumulator,
  \<open>initial_slashes\<close> the number of leading slashes kept.
\<close>

fun norm_comps :: "nat \<Rightarrow> string list \<Rightarrow> string list \<Rightarrow> string list" where
  "norm_comps initial_slashes new_comps [] = new_comps"
| "norm_comps initial_slashes new_comps (part # parts) =
     (if part = [] \<or> part = ''.'' then norm_comps initial_slashes new_comps parts
      else if part \<noteq> ''..'' \<or> (initial_slashes = 0 \<and> new_comps = [])
              \<or> (new_comps \<noteq> [] \<and> last new_comps = ''..'')
        then norm_comps initial_slashes (new_comps @ [part]) parts
      else if new_comps \<noteq> [] then norm_comps initial_slashes (butlast new_comps) parts
      else norm_comps initial_slashes new_comps parts)"

definition normpath :: "string \<Rightarrow> string" where
  "normpath path =
     (if path = [] then ''.''
      else
        (let initial_slashes =
               (if isabs path then
                  (if take 2 path = ''//'' \<and> take 3 path \<noteq> ''///'' then 2 else 1)
                else 0);
             comps = norm_comps initial_slashes [] (split_slash path);
             path' = replicate initial_slashes CHR ''/'' @ join_slash comps
         in if path' = [] then ''.'' else path'))"

definition abspath :: "string \<Rightarrow> string \<Rightarrow> string" where
  "abspath cwd path = normpath (if isabs path then path else join cwd path)"

text \<open>\<open>os.path.abspath\<close> applied to a trait value: only a string is a path.\<close>

fun os_path_abspath :: "world \<Rightarrow> pyval option \<Rightarrow> error + string" where
  "os_path_abspath w (Some (PyStr s)) = Inr (abspath (getcwd w) s)"
| "os_path_abspath w _ = Inl TypeError"

subsection \<open>\<open>afniDegreeCentrality._list_outputs\<close>\<close>

record outputs =
  degree_outfile :: "string option"
  one_d_outfile :: "string option"

definition list_outputs :: "inputs \<Rightarrow> world \<Rightarrow> error + outputs" where
  "list_outputs inp w =
     (let outs = \<lparr>degree_outfile = None, one_d_outfile = None\<rparr> in
      case os_path_abspath w (inp ''prefix'') of
        Inl e \<Rightarrow> Inl e
      | Inr p \<Rightarrow>
          (let outs = outs\<lparr>degree_outfile := Some p\<rparr> in
           if truthy (inp ''out_1d'') then
             (case os_path_abspath w (inp ''out_1d'') of
                Inl e \<Rightarrow> Inl e
              | Inr q \<Rightarrow> Inr (outs\<lparr>one_d_outfile := Some q\<rparr>))
           else Inr outs))"

subsection \<open>Argument list and run of the command\<close>

text \<open>
  The argument builder and the run of a command descriptor belong to the pipeline
  library (nipype's \<open>CommandLine\<close>), which is not among the files of this repository;
  the repository declares the descriptor only. The definitions of this subsection are
  therefore written from the contract the spec gives in 4.1, 4.2 and 7.
\<close>

text \<open>
  Modelled from the spec: the serialisation of one parameter through its flag
  template (4.1), missing from the files. The template has its first conversion
  (\<open>%s\<close>, \<open>%f\<close>, \<open>%d\<close>) replaced by the rendered value. How Python prints a float
  under \<open>%f\<close> is floating-point formatting and is taken as the parameter \<open>fmt_f\<close>.
\<close>

fun pct_format :: "string \<Rightarrow> string \<Rightarrow> string" where
  "pct_format (c # d # cs) v = (if c = CHR ''%'' then v @ cs else c # pct_format (d # cs) v)"
| "pct_format cs v = cs"

text \<open>
  Modelled from the spec: the value kinds of the parameters (3: strings, file paths,
  floats, an int, booleans), each printed as the conversion of its template asks.
\<close>

fun render :: "(real \<Rightarrow> string) \<Rightarrow> pyval \<Rightarrow> string" where
  "render fmt_f (PyStr s) = s"
| "render fmt_f (PyFloat x) = fmt_f x"
| "render fmt_f (PyInt i) = str_int i"
| "render fmt_f (PyBool b) = (if b then ''True'' else ''False'')"

text \<open>
  Modelled from the spec: the rendering of a supplied parameter (4.1), missing from
  the files. A boolean flag without a conversion is emitted as it stands when true,
  and not at all when false.
\<close>

definition format_arg :: "(real \<Rightarrow> string) \<Rightarrow> trait \<Rightarrow> pyval \<Rightarrow> string option" where
  "format_arg fmt_f t v =
     (if trait_type t = TBool \<and> CHR ''%'' \<notin> set (argstr t)
      then (if truthy (Some v) then Some (argstr t) else None)
      else Some (pct_format (argstr t) (render fmt_f v)))"

text \<open>
  Modelled from the spec: the supplied parameters of a descriptor, each rendered and
  paired with its declared position (4.1); parameters that are not set give no argument.
\<close>

definition formatted :: "(real \<Rightarrow> string) \<Rightarrow> trait list \<Rightarrow> inputs \<Rightarrow> (int option \<times> string) list" where
  "formatted fmt_f spec inp =
     List.map_filter
       (\<lambda>t. case inp (trait_name t) of
              None \<Rightarrow> None
            | Some v \<Rightarrow> map_option (Pair (position t)) (format_arg fmt_f t v))
       spec"

text \<open>The three groups: positions from 0 on, negative positions, and no position.\<close>

fun initial_arg :: "int option \<times> string \<Rightarrow> (int \<times> string) option" where
  "initial_arg (Some pos, arg) = (if 0 \<le> pos then Some (pos, arg) else None)"
| "initial_arg (None, arg) = None"

fun final_arg :: "int option \<times> string \<Rightarrow> (int \<times> string) option" where
  "final_arg (Some pos, arg) = (if pos < 0 then Some (pos, arg) else None)"
| "final_arg (None, arg) = None"

fun unpositioned_arg :: "int option \<times> string \<Rightarrow> string option" where
  "unpositioned_arg (Some pos, arg) = None"
| "unpositioned_arg (None, arg) = Some arg"

text \<open>
  Modelled from the spec: the argument list of the command (4.1), missing from the
  files: "explicit positions first in ascending order, then trailing positional
  argument last". Arguments without a position stand between the two groups, in the
  order of the descriptor.
\<close>

definition parse_inputs :: "(real \<Rightarrow> string) \<Rightarrow> trait list \<Rightarrow> inputs \<Rightarrow> string list" where
  "parse_inputs fmt_f spec inp =
     (let args = formatted fmt_f spec inp;
          first_args = map snd (sort_key fst (List.map_filter initial_arg args));
          all_args = List.map_filter unpositioned_arg args;
          last_args = map snd (sort_key fst (List.map_filter final_arg args))
      in first_args @ all_args @ last_args)"

text \<open>The parameters bound to the unflagged trailing position.\<close>

definition trailing :: "trait \<Rightarrow> bool" where
  "trailing t = (CHR ''-'' \<notin> set (argstr t) \<and> (case position t of None \<Rightarrow> False | Some pos \<Rightarrow> pos < 0))"

text \<open>
  Modelled from the spec: the validation before the invocation (4.1, 7a), missing from
  the files: "a mandatory command parameter absent before invocation; surfaced
  immediately, before any external process starts".
\<close>

definition check_mandatory_inputs :: "trait list \<Rightarrow> inputs \<Rightarrow> error + unit" where
  "check_mandatory_inputs spec inp =
     (case filter (\<lambda>t. mandatory t \<and> inp (trait_name t) = None) spec of
        [] \<Rightarrow> Inr ()
      | t # _ \<Rightarrow> Inl (MandatoryInputMissing (trait_name t)))"

text \<open>
  Modelled from the spec: the run of the command (4.1, 4.2, 7b), missing from the
  files: validation, then the external process with the descriptor's environment
  merged into the process environment, a non-zero exit status being a failure, then
  output resolution. The external binary is a parameter: from its argument vector, its
  environment and the state it finds, an exit status and the state it leaves. \<open>run\<close>
  records the argument vector in \<open>started\<close> when it starts the process.
\<close>

type_synonym command = "string list \<Rightarrow> (string \<rightharpoonup> string) \<Rightarrow> world \<Rightarrow> int \<times> world"

definition run ::
  "command \<Rightarrow> (real \<Rightarrow> string) \<Rightarrow> (string \<times> string) list \<Rightarrow> inputs \<Rightarrow> world
     \<Rightarrow> (error + outputs) \<times> world" where
  "run binary fmt_f environ inp w =
     (case check_mandatory_inputs afniDegreeCentralityInputSpec inp of
        Inl e \<Rightarrow> (Inl e, w)
      | Inr _ \<Rightarrow>
          (let argv = cmd # parse_inputs fmt_f afniDegreeCentralityInputSpec inp;
               (status, w') =
                 binary argv (os_environ w ++ map_of environ) (w\<lparr>started := started w @ [argv]\<rparr>)
           in if status \<noteq> 0 then (Inl (CommandFailed status), w')
              else (list_outputs inp w', w')))"

subsection \<open>\<open>calc_eigen_from_1d\<close>\<close>

text \<open>
  \<open>np.unique\<close>: the distinct values in ascending order. The mask test of lines 104-107
  is \<open>len(np.unique(mask_img) > 2)\<close>: the comparison is taken element by element over
  the unique values, and the length of that boolean array is the condition.
\<close>

definition unique :: "real list \<Rightarrow> real list" where
  "unique xs = sort (remdups xs)"

definition mask_template_type :: "real list \<Rightarrow> nat" where
  "mask_template_type mask_img =
     (if length (map (\<lambda>v. 2 < v) (unique mask_img)) \<noteq> 0 then 1 else 0)"

text \<open>
  \<open>os.system(command)\<close> runs the command in a child shell. The child starts from a
  copy of the process environment, and what it exports ends with it: the caller gets the
  exit status only. \<open>sh_c\<close> is the child shell on the one kind of command this module
  runs, \<open>export NAME=VALUE\<close>; it returns the status and the child's environment.
\<close>

definition sh_c :: "string \<Rightarrow> (string \<rightharpoonup> string) \<Rightarrow> int \<times> (string \<rightharpoonup> string)" where
  "sh_c command env =
     (if take 7 command = ''export '' then
        (let assignment = drop 7 command;
             var = takeWhile (\<lambda>c. c \<noteq> CHR ''='') assignment;
             val = drop (length var + 1) assignment
         in (0, env(var \<mapsto> val)))
      else (127, env))"

definition os_system :: "string \<Rightarrow> world \<Rightarrow> int \<times> world" where
  "os_system command w = (let (status, child_environ) = sh_c command (os_environ w) in (status, w))"

text \<open>
  The collaborators of \<open>calc_eigen_from_1d\<close> that are not in the repository's files,
  as parameters: \<open>nib.load(f).get_data()\<close> (the voxel values, flattened),
  \<open>utils.parse_and_return_mats\<close> (similarity matrix and affine matrix),
  \<open>scipy.sparse.linalg.eigsh(m, k, which, maxiter)\<close> (eigenvalues and the matrix of
  eigenvectors, one row per node, or \<open>ArpackNoConvergence\<close>) and
  \<open>utils.map_centrality_matrix\<close>, which writes the image and returns its path.
\<close>

type_synonym matrix = "real list list"

record externals =
  nib_load :: "world \<Rightarrow> string \<Rightarrow> error + real list"
  parse_and_return_mats :: "world \<Rightarrow> string \<Rightarrow> error + (matrix \<times> matrix)"
  eigsh :: "matrix \<Rightarrow> nat \<Rightarrow> string \<Rightarrow> nat \<Rightarrow> error + (real list \<times> matrix)"
  map_centrality_matrix ::
    "string \<times> matrix \<Rightarrow> matrix \<Rightarrow> string \<Rightarrow> nat \<Rightarrow> world \<Rightarrow> (error + string) \<times> world"

definition calc_eigen_from_1d ::
  "externals \<Rightarrow> string \<Rightarrow> int \<Rightarrow> string \<Rightarrow> world \<Rightarrow> (error + string) \<times> world" where
  "calc_eigen_from_1d ext one_d_file num_threads mask_file w =
     (let num_eigs = 1; which_eigs = ''LM''; max_iter = 1000 in
      case nib_load ext w mask_file of
        Inl e \<Rightarrow> (Inl e, w)
      | Inr mask_img \<Rightarrow>
          (let template_type = mask_template_type mask_img;
               (status, w) = os_system (''export MKL_NUM_THREADS='' @ str_int num_threads) w
           in case parse_and_return_mats ext w one_d_file of
                Inl e \<Rightarrow> (Inl e, w)
              | Inr (sim_matrix, affine_matrix) \<Rightarrow>
                  (case eigsh ext sim_matrix num_eigs which_eigs max_iter of
                     Inl e \<Rightarrow> (Inl e, w)
                   | Inr (eig_val, eig_vect) \<Rightarrow>
                       (let centrality_tuple = (''eigenvector_centrality'', map (map abs) eig_vect)
                        in map_centrality_matrix ext centrality_tuple affine_matrix mask_file
                             template_type w))))"

subsection \<open>Data passing along the connections\<close>

text \<open>
  The inputs the primary stage runs with: the assignments the function made on the
  node (line 162, when it made one), then those of the caller, who supplies at least
  the prefix and the dataset.
\<close>

definition stage_inputs :: "node \<Rightarrow> (string \<times> pyval) list \<Rightarrow> inputs" where
  "stage_inputs n supplied = inputs_of (node_inputs n @ supplied)"

text \<open>The output slots of the command, by the names the connections use.\<close>

definition output_slot :: "outputs \<Rightarrow> string \<Rightarrow> string option" where
  "output_slot outs slot =
     (if slot = ''degree_outfile'' then degree_outfile outs
      else if slot = ''one_d_outfile'' then one_d_outfile outs
      else None)"

definition stage_results :: "string \<Rightarrow> outputs \<Rightarrow> string \<Rightarrow> string \<Rightarrow> string option" where
  "stage_results stage outs n slot = (if n = stage then output_slot outs slot else None)"

text \<open>
  Modelled from the spec: the inter-node data passing of the pipeline engine (4.4, 6),
  missing from the files. A field of a node receives the value of the output slot that
  its connection names, which is absent when that slot is; a field that no connection
  ends in stays unset.
\<close>

definition delivered ::
  "workflow \<Rightarrow> (string \<Rightarrow> string \<Rightarrow> string option) \<Rightarrow> string \<Rightarrow> string \<Rightarrow> string option" where
  "delivered flow results dst field =
     (case filter (\<lambda>(src, slot, d, f). d = dst \<and> f = field) (connections flow) of
        [] \<Rightarrow> None
      | (src, slot, d, f) # _ \<Rightarrow> results src slot)"

subsection \<open>Sample surroundings for the worked instances\<close>

definition sample_world :: world where
  "sample_world =
     \<lparr>os_environ = [''HOME'' \<mapsto> ''/root''], getcwd = ''/tmp/work'',
      files = [''/tmp/work/mask.nii'', ''/tmp/work/similarity_matrix.1D''], started = []\<rparr>"

text \<open>
  Collaborators for a two-voxel mask: the solver returns a vector of mixed signs, and
  the mapper writes one image. In \<open>stalled_externals\<close> the solver does not converge.
\<close>

definition sample_externals :: externals where
  "sample_externals =
     \<lparr>nib_load = (\<lambda>w f. if f \<in> set (files w) then Inr [0, 1, 1, 0] else Inl ImageFileError),
      parse_and_return_mats =
        (\<lambda>w f. if f \<in> set (files w) then Inr ([[1, 1], [1, 1]], [[1, 0], [0, 1]]) else Inl ParseError),
      eigsh = (\<lambda>m k which maxiter. Inr ([2], [[- (3 / 5)], [4 / 5]])),
      map_centrality_matrix =
        (\<lambda>tuple affine mask_file template_type w.
           (Inr (getcwd w @ ''/'' @ fst tuple @ ''.nii.gz''),
            w\<lparr>files := files w @ [getcwd w @ ''/'' @ fst tuple @ ''.nii.gz'']\<rparr>))\<rparr>"

definition stalled_externals :: externals where
  "stalled_externals = sample_externals\<lparr>eigsh := (\<lambda>m k which maxiter. Inl ArpackNoConvergence)\<rparr>"

text \<open>A stand-in for the external binary: it succeeds and writes one image.\<close>

definition sample_binary :: command where
  "sample_binary argv env w = (0, w\<lparr>files := files w @ [getcwd w @ ''/degree_centrality'']\<rparr>)"

definition sample_fmt_f :: "real \<Rightarrow> string" where
  "sample_fmt_f x = (if x = 6 / 10 then ''0.600000'' else if x = 1 / 1000 then ''0.001000'' else ''0.000000'')"

section \<open>Properties\<close>

subsection \<open>Workflow assembly\<close>

text \<open>
  C10. For every combination of arguments, the workflow returned by
  \<open>create_network_centrality_wf\<close> is named \<open>afni_centrality\<close>, and the \<open>wf_name\<close>
  argument has no effect on the workflow that is built.
\<close>

theorem wf_name_ignored:
  "workflow_name (create_network_centrality_wf wf_name num_threads memory run_eigen)
     = ''afni_centrality''
   \<and> create_network_centrality_wf wf_name num_threads memory run_eigen
     = create_network_centrality_wf wf_name' num_threads memory run_eigen"
  by (simp add: create_network_centrality_wf_def connect_def Workflow_def Let_def)

subsection \<open>Output resolution\<close>

text \<open>Splitting, normalising and joining a path whose last component is a plain file name.\<close>

lemma split_slash_nonempty: "split_slash s \<noteq> []"
  by (induction s) (auto split: list.splits)

lemma split_slash_no_slash: "CHR ''/'' \<notin> set s \<Longrightarrow> split_slash s = [s]"
  by (induction s) auto

lemma split_slash_append:
  "split_slash (xs @ CHR ''/'' # ys) = split_slash xs @ split_slash ys"
  by (induction xs) (auto split: list.splits simp: split_slash_nonempty)

lemma norm_comps_append:
  "norm_comps k acc (xs @ ys) = norm_comps k (norm_comps k acc xs) ys"
  by (induction xs arbitrary: acc) auto

lemma join_slash_snoc: "suffix p (join_slash (ps @ [p]))"
  by (induction ps rule: join_slash.induct) (auto intro: suffix_ConsI suffix_appendI)

lemma normpath_isabs:
  assumes "isabs p"
  shows "\<exists>k. 0 < k \<and> normpath p = replicate k CHR ''/'' @ join_slash (norm_comps k [] (split_slash p))"
proof (cases "take 2 p = ''//'' \<and> take 3 p \<noteq> ''///''")
  case True
  with assms have "normpath p = replicate 2 CHR ''/'' @ join_slash (norm_comps 2 [] (split_slash p))"
    by (auto simp: normpath_def Let_def isabs_def)
  then show ?thesis by (intro exI [of _ 2]) simp
next
  case False
  with assms have "normpath p = replicate 1 CHR ''/'' @ join_slash (norm_comps 1 [] (split_slash p))"
    by (auto simp: normpath_def Let_def isabs_def)
  then show ?thesis by (intro exI [of _ 1]) simp
qed

lemma normpath_file:
  assumes abs: "isabs d" and nm: "CHR ''/'' \<notin> set f" "f \<noteq> []" "f \<noteq> ''.''" "f \<noteq> ''..''"
  shows "isabs (normpath (d @ ''/'' @ f)) \<and> suffix f (normpath (d @ ''/'' @ f))"
proof -
  let ?p = "d @ ''/'' @ f"
  have sp: "split_slash ?p = split_slash d @ [f]"
    using split_slash_append [of d f] nm(1) by (simp add: split_slash_no_slash)
  from abs have "isabs ?p" by (auto simp: isabs_def split: list.splits)
  then obtain k where k: "0 < k"
    and np: "normpath ?p = replicate k CHR ''/'' @ join_slash (norm_comps k [] (split_slash ?p))"
    using normpath_isabs by blast
  have comps: "norm_comps k [] (split_slash ?p) = norm_comps k [] (split_slash d) @ [f]"
    unfolding sp norm_comps_append using nm by simp
  have "suffix f (normpath ?p)"
    unfolding np comps by (rule suffix_appendI) (rule join_slash_snoc)
  moreover from k have "isabs (normpath ?p)"
    unfolding np by (cases k) (simp_all add: isabs_def)
  ultimately show ?thesis by simp
qed

lemma abspath_file:
  assumes abs: "isabs d" and nm: "CHR ''/'' \<notin> set f" "f \<noteq> []" "f \<noteq> ''.''" "f \<noteq> ''..''"
  shows "isabs (abspath d f) \<and> suffix f (abspath d f)"
proof (cases "endswith_slash d")
  case False
  with abs nm have "abspath d f = normpath (d @ ''/'' @ f)"
    by (auto simp: abspath_def join_def isabs_def split: list.splits)
  with normpath_file [OF abs nm] show ?thesis by simp
next
  case True
  then obtain d' where d: "d = d' @ ''/''"
    by (cases d rule: rev_cases) (auto simp: endswith_slash_def)
  show ?thesis
  proof (cases "d' = []")
    case True
    with d nm have "abspath d f = normpath (''/'' @ f)"
      by (auto simp: abspath_def join_def isabs_def endswith_slash_def split: list.splits)
    also have "\<dots> = ''/'' @ f"
      using nm by (cases f) (auto simp: normpath_def isabs_def Let_def split_slash_no_slash)
    finally show ?thesis by (simp add: isabs_def suffix_def)
  next
    case False
    with d abs have abs': "isabs d'" by (cases d') (auto simp: isabs_def)
    from d nm abs have "abspath d f = normpath (d' @ ''/'' @ f)"
      by (auto simp: abspath_def join_def isabs_def endswith_slash_def split: list.splits)
    with normpath_file [OF abs' nm] show ?thesis by simp
  qed
qed

lemma abspath_isabs:
  assumes "isabs d"
  shows "isabs (abspath d p)"
proof -
  from assms have "isabs (if isabs p then p else join d p)"
    by (auto simp: join_def isabs_def split: list.splits)
  then obtain k where "0 < k"
    and "abspath d p = replicate k CHR ''/'' @ join_slash (norm_comps k [] (split_slash (if isabs p then p else join d p)))"
    unfolding abspath_def using normpath_isabs by blast
  then show ?thesis by (cases k) (simp_all add: isabs_def)
qed

text \<open>
  C4. Let the prefix parameter be set and the working directory be absolute, as
  \<open>os.getcwd()\<close> returns it. With \<open>out_1d\<close> unset, \<open>_list_outputs\<close> succeeds and leaves
  the \<open>one_d_outfile\<close> slot absent; with \<open>out_1d\<close> set to \<open>similarity_matrix.1D\<close> the slot
  holds an absolute path that ends in that file name. In both cases \<open>degree_outfile\<close>
  is the absolute path of the prefix.
\<close>

theorem list_outputs_resolution:
  assumes prefix: "inp ''prefix'' = Some (PyStr p)" and cwd: "isabs (getcwd w)"
  shows "list_outputs (inp(''out_1d'' := None)) w
           = Inr \<lparr>degree_outfile = Some (abspath (getcwd w) p), one_d_outfile = None\<rparr>
       \<and> list_outputs (inp(''out_1d'' \<mapsto> PyStr ''similarity_matrix.1D'')) w
           = Inr \<lparr>degree_outfile = Some (abspath (getcwd w) p),
                  one_d_outfile = Some (abspath (getcwd w) ''similarity_matrix.1D'')\<rparr>
       \<and> isabs (abspath (getcwd w) p)
       \<and> isabs (abspath (getcwd w) ''similarity_matrix.1D'')
       \<and> suffix ''similarity_matrix.1D'' (abspath (getcwd w) ''similarity_matrix.1D'')"
proof -
  have unset: "list_outputs (inp(''out_1d'' := None)) w
      = Inr \<lparr>degree_outfile = Some (abspath (getcwd w) p), one_d_outfile = None\<rparr>"
    using prefix by (simp add: list_outputs_def)
  have given: "list_outputs (inp(''out_1d'' \<mapsto> PyStr ''similarity_matrix.1D'')) w
      = Inr \<lparr>degree_outfile = Some (abspath (getcwd w) p),
             one_d_outfile = Some (abspath (getcwd w) ''similarity_matrix.1D'')\<rparr>"
    using prefix by (simp add: list_outputs_def)
  have "CHR ''/'' \<notin> set ''similarity_matrix.1D''" by simp
  then have "isabs (abspath (getcwd w) ''similarity_matrix.1D'')
      \<and> suffix ''similarity_matrix.1D'' (abspath (getcwd w) ''similarity_matrix.1D'')"
    using cwd by (intro abspath_file) simp_all
  with unset given abspath_isabs [OF cwd] show ?thesis by simp
qed

theorem list_outputs_resolution_witness:
  "list_outputs ([''prefix'' \<mapsto> PyStr ''degree_centrality''](''out_1d'' := None)) sample_world
     = Inr \<lparr>degree_outfile = Some ''/tmp/work/degree_centrality'', one_d_outfile = None\<rparr>
   \<and> list_outputs ([''prefix'' \<mapsto> PyStr ''degree_centrality'']
        (''out_1d'' \<mapsto> PyStr ''similarity_matrix.1D'')) sample_world
     = Inr \<lparr>degree_outfile = Some ''/tmp/work/degree_centrality'',
            one_d_outfile = Some ''/tmp/work/similarity_matrix.1D''\<rparr>"
proof -
  have cwd: "isabs (getcwd sample_world)"
    by (simp add: sample_world_def isabs_def)
  have p: "[''prefix'' \<mapsto> PyStr ''degree_centrality''] ''prefix'' = Some (PyStr ''degree_centrality'')"
    by simp
  have a1: "abspath (getcwd sample_world) ''degree_centrality'' = ''/tmp/work/degree_centrality''"
    by (simp add: sample_world_def abspath_def normpath_def join_def isabs_def endswith_slash_def)
  have a2: "abspath (getcwd sample_world) ''similarity_matrix.1D'' = ''/tmp/work/similarity_matrix.1D''"
    by (simp add: sample_world_def abspath_def normpath_def join_def isabs_def endswith_slash_def)
  from list_outputs_resolution
      [of "[''prefix'' \<mapsto> PyStr ''degree_centrality'']" "''degree_centrality''" sample_world,
       OF p cwd]
  show ?thesis
    unfolding a1 a2 by simp
qed

subsection \<open>Command descriptor\<close>

text \<open>Assignments of distinct parameters give the same inputs in any order.\<close>

lemma foldl_assign: "foldl assign m supplied = m ++ map_of (rev supplied)"
proof (induction supplied arbitrary: m)
  case Nil
  show ?case by simp
next
  case (Cons kv rest)
  have "foldl assign m (kv # rest) = foldl assign (m(fst kv \<mapsto> snd kv)) rest"
    by (simp add: assign_def)
  also have "\<dots> = m(fst kv \<mapsto> snd kv) ++ map_of (rev rest)"
    by (rule Cons)
  also have "\<dots> = m ++ map_of (rev (kv # rest))"
    by (cases kv) (simp add: fun_eq_iff map_add_def split: option.splits)
  finally show ?case .
qed

lemma inputs_of_reorder:
  assumes "distinct (map fst supplied)" and "mset supplied' = mset supplied"
  shows "inputs_of supplied' = inputs_of supplied"
proof -
  from assms(2) have "mset (map fst supplied') = mset (map fst supplied)" by simp
  with assms(1) have d': "distinct (map fst supplied')"
    by (metis mset_eq_imp_distinct_iff)
  from assms(2) have s: "set supplied' = set supplied" by (rule mset_eq_setD)
  have "map_of (rev supplied') = map_of (rev supplied)"
    using assms(1) d' s by (subst map_of_inject_set) (simp_all add: rev_map [symmetric])
  then show ?thesis by (simp add: inputs_of_def foldl_assign)
qed

lemma positioned_args:
  assumes "inp ''prefix'' = Some (PyStr p)" and "inp ''mask'' = Some (PyStr m)"
    and "inp ''thresh'' = Some (PyFloat t)" and "inp ''sparsity'' = Some (PyFloat s)"
    and "inp ''out_1d'' = Some (PyStr out)" and "inp ''polort'' = Some (PyInt d)"
    and "inp ''dataset'' = Some (PyStr ds)"
  shows "parse_inputs fmt_f afniDegreeCentralityInputSpec inp
           = [''-prefix '' @ p, ''-mask '' @ m, ''-thresh '' @ fmt_f t, ''-sparsity '' @ fmt_f s,
              ''-out1D '' @ out, ''-polort '' @ str_int d]
             @ (if truthy (inp ''autoclip'') then [''-autoclip''] else [])
             @ (if truthy (inp ''automask'') then [''-automask''] else [])
             @ [ds]"
  using assms
  by (cases "inp ''autoclip''"; cases "inp ''automask''")
     (simp_all add: parse_inputs_def formatted_def afniDegreeCentralityInputSpec_def
        format_arg_def map_filter_simps Let_def)

text \<open>
  C5. Let every positioned parameter and the dataset be supplied, each parameter once.
  Whatever the order of the assignments, the argument list is the six positioned flags
  in ascending position order (\<open>prefix\<close>, \<open>mask\<close>, \<open>thresh\<close>, \<open>sparsity\<close>, \<open>out_1d\<close>,
  \<open>polort\<close>, declared at positions 0 to 5), then the boolean flags that are set, and the
  dataset path last. The dataset is the only parameter of the descriptor bound to the
  unflagged trailing position.
\<close>

theorem argument_order:
  assumes once: "distinct (map fst supplied)" and reorder: "mset supplied' = mset supplied"
    and given: "inputs_of supplied ''prefix'' = Some (PyStr p)"
      "inputs_of supplied ''mask'' = Some (PyStr m)"
      "inputs_of supplied ''thresh'' = Some (PyFloat t)"
      "inputs_of supplied ''sparsity'' = Some (PyFloat s)"
      "inputs_of supplied ''out_1d'' = Some (PyStr out)"
      "inputs_of supplied ''polort'' = Some (PyInt d)"
      "inputs_of supplied ''dataset'' = Some (PyStr ds)"
  shows "parse_inputs fmt_f afniDegreeCentralityInputSpec (inputs_of supplied')
           = [''-prefix '' @ p, ''-mask '' @ m, ''-thresh '' @ fmt_f t, ''-sparsity '' @ fmt_f s,
              ''-out1D '' @ out, ''-polort '' @ str_int d]
             @ (if truthy (inputs_of supplied ''autoclip'') then [''-autoclip''] else [])
             @ (if truthy (inputs_of supplied ''automask'') then [''-automask''] else [])
             @ [ds]
       \<and> map (\<lambda>t. (trait_name t, position t))
            (filter (\<lambda>t. position t \<noteq> None \<and> \<not> trailing t) afniDegreeCentralityInputSpec)
           = [(''prefix'', Some 0), (''mask'', Some 1), (''thresh'', Some 2),
              (''sparsity'', Some 3), (''out_1d'', Some 4), (''polort'', Some 5)]
       \<and> map trait_name (filter trailing afniDegreeCentralityInputSpec) = [''dataset'']"
proof -
  have same: "inputs_of supplied' = inputs_of supplied"
    using once reorder by (rule inputs_of_reorder)
  have table: "map (\<lambda>t. (trait_name t, position t))
            (filter (\<lambda>t. position t \<noteq> None \<and> \<not> trailing t) afniDegreeCentralityInputSpec)
           = [(''prefix'', Some 0), (''mask'', Some 1), (''thresh'', Some 2),
              (''sparsity'', Some 3), (''out_1d'', Some 4), (''polort'', Some 5)]"
    by (simp add: afniDegreeCentralityInputSpec_def trailing_def)
  have last: "map trait_name (filter trailing afniDegreeCentralityInputSpec) = [''dataset'']"
    by (simp add: afniDegreeCentralityInputSpec_def trailing_def)
  show ?thesis
    unfolding same using positioned_args [OF given] table last by simp
qed

theorem argument_order_witness:
  "distinct (map fst
     [(''dataset'', PyStr ''func.nii''), (''polort'', PyInt 2), (''autoclip'', PyBool True),
      (''sparsity'', PyFloat (1 / 1000)), (''prefix'', PyStr ''dc''), (''out_1d'', PyStr ''sim.1D''),
      (''thresh'', PyFloat (6 / 10)), (''mask'', PyStr ''mask.nii'')])
   \<and> parse_inputs sample_fmt_f afniDegreeCentralityInputSpec
       (inputs_of
         [(''prefix'', PyStr ''dc''), (''mask'', PyStr ''mask.nii''), (''thresh'', PyFloat (6 / 10)),
          (''sparsity'', PyFloat (1 / 1000)), (''out_1d'', PyStr ''sim.1D''), (''polort'', PyInt 2),
          (''autoclip'', PyBool True), (''dataset'', PyStr ''func.nii'')])
     = [''-prefix dc'', ''-mask mask.nii'', ''-thresh 0.600000'', ''-sparsity 0.001000'',
        ''-out1D sim.1D'', ''-polort 2'', ''-autoclip'', ''func.nii'']"
proof -
  let ?given = "[(''dataset'', PyStr ''func.nii''), (''polort'', PyInt 2), (''autoclip'', PyBool True),
      (''sparsity'', PyFloat (1 / 1000)), (''prefix'', PyStr ''dc''), (''out_1d'', PyStr ''sim.1D''),
      (''thresh'', PyFloat (6 / 10)), (''mask'', PyStr ''mask.nii'')]"
  let ?sorted = "[(''prefix'', PyStr ''dc''), (''mask'', PyStr ''mask.nii''), (''thresh'', PyFloat (6 / 10)),
          (''sparsity'', PyFloat (1 / 1000)), (''out_1d'', PyStr ''sim.1D''), (''polort'', PyInt 2),
          (''autoclip'', PyBool True), (''dataset'', PyStr ''func.nii'')]"
  have once: "distinct (map fst ?given)" by simp
  have reorder: "mset ?sorted = mset ?given" by simp
  have two: "str_int 2 = ''2''" by (simp add: str_int_def digits10.simps)
  show ?thesis
    using argument_order [OF once reorder, of "''dc''" "''mask.nii''" "6 / 10" "1 / 1000"
        "''sim.1D''" 2 "''func.nii''" sample_fmt_f]
    by (simp add: inputs_of_def assign_def two sample_fmt_f_def)
qed

text \<open>
  C8. When the mandatory prefix parameter is not set, running the command fails with
  a validation error that names it, and no external process has been started: the
  state, and with it the list of started commands, is the one before the call.
\<close>

theorem missing_prefix_rejected:
  assumes "inp ''prefix'' = None"
  shows "run binary fmt_f environ inp w = (Inl (MandatoryInputMissing ''prefix''), w)
       \<and> started (snd (run binary fmt_f environ inp w)) = started w"
  using assms by (simp add: run_def check_mandatory_inputs_def afniDegreeCentralityInputSpec_def)

theorem missing_prefix_rejected_witness:
  "run sample_binary sample_fmt_f [(''OMP_NUM_THREADS'', ''4'')]
      [''dataset'' \<mapsto> PyStr ''func.nii''] sample_world
     = (Inl (MandatoryInputMissing ''prefix''), sample_world)"
  using missing_prefix_rejected [of "[''dataset'' \<mapsto> PyStr ''func.nii'']" sample_binary
      sample_fmt_f "[(''OMP_NUM_THREADS'', ''4'')]" sample_world]
  by simp

text \<open>With the prefix set, the same run does start the command.\<close>

lemma run_starts_command:
  "started (snd (run sample_binary sample_fmt_f [(''OMP_NUM_THREADS'', ''4'')]
      [''prefix'' \<mapsto> PyStr ''dc'', ''dataset'' \<mapsto> PyStr ''func.nii''] sample_world))
     = [[''3dDegreeCentrality'', ''-prefix dc'', ''func.nii'']]"
  by (simp add: run_def check_mandatory_inputs_def afniDegreeCentralityInputSpec_def
      parse_inputs_def formatted_def format_arg_def map_filter_simps Let_def cmd_def
      sample_binary_def sample_world_def list_outputs_def)

subsection \<open>Delivery with the eigenvector stage disabled\<close>

text \<open>A parameter that no assignment names is not set.\<close>

lemma inputs_of_unset: "k \<notin> fst ` set supplied \<Longrightarrow> inputs_of supplied k = None"
  by (simp add: inputs_of_def foldl_assign map_add_def map_of_eq_None_iff split: option.splits)

text \<open>
  C3, as amended. With \<open>run_eigen = False\<close> the graph holds the degree centrality
  stage (the command descriptor with its \<open>OMP_NUM_THREADS\<close> environment, no input
  assigned on it) and the output node, with two connections: \<open>degree_outfile\<close> to
  \<open>degree_output\<close> and \<open>one_d_outfile\<close> to \<open>one_d_output\<close>. No connection ends in
  \<open>eigen_output\<close>, which stays unset whatever the stages produce. The output node
  receives the two output slots of the primary stage as that stage resolved them.
  When the caller sets the prefix and does not set \<open>out_1d\<close>, the degree centrality
  image is resolved to the absolute path of the prefix and the similarity-matrix slot is
  absent.
\<close>

theorem run_eigen_off_delivery:
  assumes prefix: "stage_inputs (afni_centrality_node num_threads memory False) supplied ''prefix''
      = Some (PyStr p)"
    and not_requested: "''out_1d'' \<notin> fst ` set supplied"
  shows "graph_nodes (create_network_centrality_wf wf_name num_threads memory False)
           = [\<lparr>node_name = ''afni_degree_centrality'',
                node_interface = AfniDegreeCentrality [(''OMP_NUM_THREADS'', str_int num_threads)],
                node_inputs = [],
                interface_num_threads = Some num_threads,
                interface_memory = Some memory\<rparr>,
              \<lparr>node_name = ''output_node'',
                node_interface =
                  IdentityInterface [''degree_output'', ''eigen_output'', ''one_d_output''],
                node_inputs = [],
                interface_num_threads = None,
                interface_memory = None\<rparr>]
       \<and> connections (create_network_centrality_wf wf_name num_threads memory False)
           = [(''afni_degree_centrality'', ''degree_outfile'', ''output_node'', ''degree_output''),
              (''afni_degree_centrality'', ''one_d_outfile'', ''output_node'', ''one_d_output'')]
       \<and> (src, slot, ''output_node'', ''eigen_output'')
           \<notin> set (connections (create_network_centrality_wf wf_name num_threads memory False))
       \<and> delivered (create_network_centrality_wf wf_name num_threads memory False) results
             ''output_node'' ''eigen_output'' = None
       \<and> delivered (create_network_centrality_wf wf_name num_threads memory False)
             (stage_results ''afni_degree_centrality'' outs) ''output_node'' ''degree_output''
           = degree_outfile outs
       \<and> delivered (create_network_centrality_wf wf_name num_threads memory False)
             (stage_results ''afni_degree_centrality'' outs) ''output_node'' ''one_d_output''
           = one_d_outfile outs
       \<and> list_outputs (stage_inputs (afni_centrality_node num_threads memory False) supplied) w
           = Inr \<lparr>degree_outfile = Some (abspath (getcwd w) p), one_d_outfile = None\<rparr>"
proof -
  let ?flow = "create_network_centrality_wf wf_name num_threads memory False"
  have edges: "connections ?flow
      = [(''afni_degree_centrality'', ''degree_outfile'', ''output_node'', ''degree_output''),
         (''afni_degree_centrality'', ''one_d_outfile'', ''output_node'', ''one_d_output'')]"
    by (simp add: create_network_centrality_wf_def connect_def Workflow_def Let_def
        afni_centrality_node_def output_node_def)
  have nodes: "graph_nodes ?flow
      = [\<lparr>node_name = ''afni_degree_centrality'',
           node_interface = AfniDegreeCentrality [(''OMP_NUM_THREADS'', str_int num_threads)],
           node_inputs = [],
           interface_num_threads = Some num_threads,
           interface_memory = Some memory\<rparr>,
         \<lparr>node_name = ''output_node'',
           node_interface = IdentityInterface [''degree_output'', ''eigen_output'', ''one_d_output''],
           node_inputs = [],
           interface_num_threads = None,
           interface_memory = None\<rparr>]"
    by (simp add: create_network_centrality_wf_def connect_def Workflow_def Let_def
        add_node_def afni_centrality_node_def output_node_def)
  have unconnected: "(src, slot, ''output_node'', ''eigen_output'') \<notin> set (connections ?flow)"
    unfolding edges by simp
  have eigen: "delivered ?flow results ''output_node'' ''eigen_output'' = None"
    unfolding delivered_def edges by simp
  have degree: "delivered ?flow (stage_results ''afni_degree_centrality'' outs)
      ''output_node'' ''degree_output'' = degree_outfile outs"
    unfolding delivered_def edges by (simp add: stage_results_def output_slot_def)
  have one_d: "delivered ?flow (stage_results ''afni_degree_centrality'' outs)
      ''output_node'' ''one_d_output'' = one_d_outfile outs"
    unfolding delivered_def edges by (simp add: stage_results_def output_slot_def)
  have unset: "stage_inputs (afni_centrality_node num_threads memory False) supplied ''out_1d'' = None"
    using not_requested by (simp add: stage_inputs_def afni_centrality_node_def inputs_of_unset)
  have resolved: "list_outputs (stage_inputs (afni_centrality_node num_threads memory False) supplied) w
      = Inr \<lparr>degree_outfile = Some (abspath (getcwd w) p), one_d_outfile = None\<rparr>"
    using prefix unset by (simp add: list_outputs_def)
  from nodes edges unconnected eigen degree one_d resolved show ?thesis by simp
qed

theorem run_eigen_off_delivery_witness:
  "list_outputs
     (stage_inputs (afni_centrality_node 1 1 False)
        [(''prefix'', PyStr ''dc''), (''dataset'', PyStr ''func.nii'')]) sample_world
     = Inr \<lparr>degree_outfile = Some ''/tmp/work/dc'', one_d_outfile = None\<rparr>
   \<and> delivered (create_network_centrality_wf ''network_centrality'' 1 1 False)
       (stage_results ''afni_degree_centrality''
          \<lparr>degree_outfile = Some ''/tmp/work/dc'', one_d_outfile = None\<rparr>)
       ''output_node'' ''degree_output'' = Some ''/tmp/work/dc''"
proof -
  let ?supplied = "[(''prefix'', PyStr ''dc''), (''dataset'', PyStr ''func.nii'')]"
  have prefix: "stage_inputs (afni_centrality_node 1 1 False) ?supplied ''prefix'' = Some (PyStr ''dc'')"
    by (simp add: stage_inputs_def afni_centrality_node_def inputs_of_def assign_def)
  have not_requested: "''out_1d'' \<notin> fst ` set ?supplied" by simp
  have path: "abspath (getcwd sample_world) ''dc'' = ''/tmp/work/dc''"
    by (simp add: sample_world_def abspath_def normpath_def join_def isabs_def endswith_slash_def)
  from run_eigen_off_delivery [OF prefix not_requested, of "''network_centrality''"
      _ _ _ "\<lparr>degree_outfile = Some ''/tmp/work/dc'', one_d_outfile = None\<rparr>" sample_world]
  show ?thesis unfolding path by simp
qed

text \<open>
  C3, as stated, fails: the workflow built with \<open>run_eigen = False\<close> and run with a
  prefix and a dataset resolves no similarity-matrix file, and the \<open>one_d_output\<close>
  field of the output node receives nothing.
\<close>

theorem run_eigen_off_no_similarity_matrix:
  "list_outputs
     (stage_inputs (afni_centrality_node 1 1 False)
        [(''prefix'', PyStr ''dc''), (''dataset'', PyStr ''func.nii'')]) sample_world
     = Inr \<lparr>degree_outfile = Some ''/tmp/work/dc'', one_d_outfile = None\<rparr>
   \<and> delivered (create_network_centrality_wf ''network_centrality'' 1 1 False)
       (stage_results ''afni_degree_centrality''
          \<lparr>degree_outfile = Some ''/tmp/work/dc'', one_d_outfile = None\<rparr>)
       ''output_node'' ''one_d_output'' = None"
proof -
  have resolved: "list_outputs
     (stage_inputs (afni_centrality_node 1 1 False)
        [(''prefix'', PyStr ''dc''), (''dataset'', PyStr ''func.nii'')]) sample_world
     = Inr \<lparr>degree_outfile = Some ''/tmp/work/dc'', one_d_outfile = None\<rparr>"
    by (simp add: list_outputs_def stage_inputs_def afni_centrality_node_def inputs_of_def
        assign_def sample_world_def abspath_def normpath_def join_def isabs_def endswith_slash_def)
  have absent: "delivered (create_network_centrality_wf ''network_centrality'' 1 1 False)
       (stage_results ''afni_degree_centrality''
          \<lparr>degree_outfile = Some ''/tmp/work/dc'', one_d_outfile = None\<rparr>)
       ''output_node'' ''one_d_output'' = None"
    by (simp add: delivered_def create_network_centrality_wf_def connect_def Workflow_def Let_def
        afni_centrality_node_def output_node_def stage_results_def output_slot_def)
  from resolved absent show ?thesis by simp
qed

subsection \<open>Eigenvector centrality\<close>

text \<open>The mask test yields 1 for every image that has a voxel at all.\<close>

lemma mask_template_type_nonempty: "mask_template_type mask_img = (if mask_img = [] then 0 else 1)"
  by (simp add: mask_template_type_def unique_def)

text \<open>
  C1. A mask whose image has exactly two distinct values is to be classified as a binary
  mask (\<open>template_type = 0\<close>). The code classifies it as an atlas: on the image with the
  two labels 1 and 2, and on the usual binary mask with the values 0 and 1, the result
  is \<open>template_type = 1\<close>.
\<close>

theorem two_label_mask_classified_as_atlas:
  "unique [1, 2, 2, 1] = [1, 2] \<and> mask_template_type [1, 2, 2, 1] = 1
   \<and> unique [0, 1, 1, 0] = [0, 1] \<and> mask_template_type [0, 1, 1, 0] = 1"
  by (simp add: mask_template_type_def unique_def)

text \<open>\<open>os.system\<close> leaves the state of the calling process as it was.\<close>

lemma os_system_world: "snd (os_system command w) = w"
  by (simp add: os_system_def split: prod.splits)

text \<open>
  C2. When the mask and the similarity matrix have been read and the solver, asked for
  one eigenpair of largest magnitude within 1000 iterations, does not converge,
  \<open>calc_eigen_from_1d\<close> ends with that error, and the state is the one before the call: no
  output file has been written.
\<close>

theorem no_output_without_convergence:
  assumes "nib_load ext w mask_file = Inr mask_img"
    and "parse_and_return_mats ext w one_d_file = Inr (sim_matrix, affine_matrix)"
    and "eigsh ext sim_matrix 1 ''LM'' 1000 = Inl ArpackNoConvergence"
  shows "calc_eigen_from_1d ext one_d_file num_threads mask_file w = (Inl ArpackNoConvergence, w)
       \<and> files (snd (calc_eigen_from_1d ext one_d_file num_threads mask_file w)) = files w"
  using assms by (simp add: calc_eigen_from_1d_def os_system_def split: prod.splits)

theorem no_output_without_convergence_witness:
  "calc_eigen_from_1d stalled_externals ''/tmp/work/similarity_matrix.1D'' 4 ''/tmp/work/mask.nii''
      sample_world = (Inl ArpackNoConvergence, sample_world)
   \<and> files sample_world = [''/tmp/work/mask.nii'', ''/tmp/work/similarity_matrix.1D'']"
proof -
  have load: "nib_load stalled_externals sample_world ''/tmp/work/mask.nii'' = Inr [0, 1, 1, 0]"
    by (simp add: stalled_externals_def sample_externals_def sample_world_def)
  have parse: "parse_and_return_mats stalled_externals sample_world ''/tmp/work/similarity_matrix.1D''
      = Inr ([[1, 1], [1, 1]], [[1, 0], [0, 1]])"
    by (simp add: stalled_externals_def sample_externals_def sample_world_def)
  have stall: "eigsh stalled_externals [[1, 1], [1, 1]] 1 ''LM'' 1000 = Inl ArpackNoConvergence"
    by (simp add: stalled_externals_def)
  from no_output_without_convergence [OF load parse stall, of 4] show ?thesis
    by (simp add: sample_world_def)
qed

text \<open>
  C6. When the solver converges, the values that \<open>calc_eigen_from_1d\<close> hands to the
  mapper under the label \<open>eigenvector_centrality\<close> are the absolute values of the entries
  of the eigenvector, so all of them are non-negative, whatever the signs the solver
  returned.
\<close>

theorem centrality_values_nonnegative:
  assumes "nib_load ext w mask_file = Inr mask_img"
    and "parse_and_return_mats ext w one_d_file = Inr (sim_matrix, affine_matrix)"
    and "eigsh ext sim_matrix 1 ''LM'' 1000 = Inr (eig_val, eig_vect)"
  shows "\<exists>vals. calc_eigen_from_1d ext one_d_file num_threads mask_file w
             = map_centrality_matrix ext (''eigenvector_centrality'', vals) affine_matrix mask_file
                 (mask_template_type mask_img) w
           \<and> vals = map (map abs) eig_vect
           \<and> (\<forall>row \<in> set vals. \<forall>x \<in> set row. 0 \<le> x)"
  using assms by (auto simp: calc_eigen_from_1d_def os_system_def split: prod.splits)

theorem centrality_values_nonnegative_witness:
  "calc_eigen_from_1d sample_externals ''/tmp/work/similarity_matrix.1D'' 4 ''/tmp/work/mask.nii''
      sample_world
     = map_centrality_matrix sample_externals (''eigenvector_centrality'', [[3 / 5], [4 / 5]])
         [[1, 0], [0, 1]] ''/tmp/work/mask.nii'' 1 sample_world"
proof -
  have load: "nib_load sample_externals sample_world ''/tmp/work/mask.nii'' = Inr [0, 1, 1, 0]"
    by (simp add: sample_externals_def sample_world_def)
  have parse: "parse_and_return_mats sample_externals sample_world ''/tmp/work/similarity_matrix.1D''
      = Inr ([[1, 1], [1, 1]], [[1, 0], [0, 1]])"
    by (simp add: sample_externals_def sample_world_def)
  have solve: "eigsh sample_externals [[1, 1], [1, 1]] 1 ''LM'' 1000 = Inr ([2], [[- (3 / 5)], [4 / 5]])"
    by (simp add: sample_externals_def)
  from centrality_values_nonnegative [OF load parse solve, of 4] show ?thesis
    by (simp add: mask_template_type_nonempty)
qed

text \<open>
  C7. Once the mask and the similarity matrix have been read, the outcome of
  \<open>calc_eigen_from_1d\<close> is decided by the solver's answer to one request: \<open>k = 1\<close>
  eigenpair, \<open>which = 'LM'\<close> (largest magnitude), \<open>maxiter = 1000\<close>. A solver that
  answers this request alike is not told apart, whatever it does on other requests.
\<close>

theorem solver_request:
  assumes "nib_load ext w mask_file = Inr mask_img"
    and "parse_and_return_mats ext w one_d_file = Inr (sim_matrix, affine_matrix)"
  shows "calc_eigen_from_1d ext one_d_file num_threads mask_file w
           = (case eigsh ext sim_matrix 1 ''LM'' 1000 of
                Inl e \<Rightarrow> (Inl e, w)
              | Inr (eig_val, eig_vect) \<Rightarrow>
                  map_centrality_matrix ext (''eigenvector_centrality'', map (map abs) eig_vect)
                    affine_matrix mask_file (mask_template_type mask_img) w)
       \<and> (\<forall>solver. solver sim_matrix 1 ''LM'' 1000 = eigsh ext sim_matrix 1 ''LM'' 1000 \<longrightarrow>
            calc_eigen_from_1d (ext\<lparr>eigsh := solver\<rparr>) one_d_file num_threads mask_file w
              = calc_eigen_from_1d ext one_d_file num_threads mask_file w)"
  using assms
  by (simp add: calc_eigen_from_1d_def os_system_def Let_def split: prod.splits sum.splits)

theorem solver_request_witness:
  "calc_eigen_from_1d sample_externals ''/tmp/work/similarity_matrix.1D'' 4 ''/tmp/work/mask.nii''
      sample_world
     = (Inr ''/tmp/work/eigenvector_centrality.nii.gz'',
        sample_world\<lparr>files := files sample_world @ [''/tmp/work/eigenvector_centrality.nii.gz'']\<rparr>)
   \<and> calc_eigen_from_1d (sample_externals\<lparr>eigsh := (\<lambda>m k which maxiter.
          if k = 1 \<and> which = ''LM'' \<and> maxiter = 1000 then Inr ([2], [[- (3 / 5)], [4 / 5]])
          else Inl ArpackNoConvergence)\<rparr>)
        ''/tmp/work/similarity_matrix.1D'' 4 ''/tmp/work/mask.nii'' sample_world
     = calc_eigen_from_1d sample_externals ''/tmp/work/similarity_matrix.1D'' 4
         ''/tmp/work/mask.nii'' sample_world"
proof -
  have load: "nib_load sample_externals sample_world ''/tmp/work/mask.nii'' = Inr [0, 1, 1, 0]"
    by (simp add: sample_externals_def sample_world_def)
  have parse: "parse_and_return_mats sample_externals sample_world ''/tmp/work/similarity_matrix.1D''
      = Inr ([[1, 1], [1, 1]], [[1, 0], [0, 1]])"
    by (simp add: sample_externals_def sample_world_def)
  have solve: "eigsh sample_externals [[1, 1], [1, 1]] 1 ''LM'' 1000 = Inr ([2], [[- (3 / 5)], [4 / 5]])"
    by (simp add: sample_externals_def)
  have mapped: "map_centrality_matrix sample_externals (''eigenvector_centrality'', [[3 / 5], [4 / 5]])
      [[1, 0], [0, 1]] ''/tmp/work/mask.nii'' 1 sample_world
     = (Inr ''/tmp/work/eigenvector_centrality.nii.gz'',
        sample_world\<lparr>files := files sample_world @ [''/tmp/work/eigenvector_centrality.nii.gz'']\<rparr>)"
    by (simp add: sample_externals_def sample_world_def)
  let ?solver = "\<lambda>(m :: matrix) (k :: nat) (which :: string) (maxiter :: nat).
          if k = 1 \<and> which = ''LM'' \<and> maxiter = 1000 then Inr ([2], [[- (3 / 5)], [4 / 5]])
          else Inl ArpackNoConvergence :: error + real list \<times> matrix"
  note request = solver_request [OF load parse, of 4]
  from request [THEN conjunct1] solve mapped
  have result: "calc_eigen_from_1d sample_externals ''/tmp/work/similarity_matrix.1D'' 4
      ''/tmp/work/mask.nii'' sample_world
     = (Inr ''/tmp/work/eigenvector_centrality.nii.gz'',
        sample_world\<lparr>files := files sample_world @ [''/tmp/work/eigenvector_centrality.nii.gz'']\<rparr>)"
    by (simp add: mask_template_type_nonempty)
  from request [THEN conjunct2, THEN spec, of ?solver]
  have "?solver [[1, 1], [1, 1]] 1 ''LM'' 1000
        = eigsh sample_externals [[1, 1], [1, 1]] 1 ''LM'' 1000 \<longrightarrow>
      calc_eigen_from_1d (sample_externals\<lparr>eigsh := ?solver\<rparr>)
        ''/tmp/work/similarity_matrix.1D'' 4 ''/tmp/work/mask.nii'' sample_world
      = calc_eigen_from_1d sample_externals ''/tmp/work/similarity_matrix.1D'' 4
          ''/tmp/work/mask.nii'' sample_world"
    by simp
  with solve result show ?thesis by simp
qed

text \<open>
  C9. The thread hint is to reach the environment of the whole process. In the code
  it does not: with \<open>num_threads = 4\<close> the child shell of \<open>os.system\<close> has
  \<open>MKL_NUM_THREADS=4\<close>, but the process environment has no \<open>MKL_NUM_THREADS\<close> after the
  call to \<open>os.system\<close>, nor after \<open>calc_eigen_from_1d\<close> has returned.
\<close>

theorem thread_hint_not_in_process_environment:
  "snd (sh_c (''export MKL_NUM_THREADS='' @ str_int 4) (os_environ sample_world)) ''MKL_NUM_THREADS''
     = Some ''4''
   \<and> os_environ (snd (os_system (''export MKL_NUM_THREADS='' @ str_int 4) sample_world))
       ''MKL_NUM_THREADS'' = None
   \<and> os_environ (snd (calc_eigen_from_1d sample_externals ''/tmp/work/similarity_matrix.1D'' 4
       ''/tmp/work/mask.nii'' sample_world)) ''MKL_NUM_THREADS'' = None"
proof -
  have four: "str_int 4 = ''4''" by (simp add: str_int_def digits10.simps)
  have child: "snd (sh_c (''export MKL_NUM_THREADS='' @ str_int 4) (os_environ sample_world))
      ''MKL_NUM_THREADS'' = Some ''4''"
    by (simp add: four sh_c_def)
  have parent: "os_environ (snd (os_system (''export MKL_NUM_THREADS='' @ str_int 4) sample_world))
       ''MKL_NUM_THREADS'' = None"
    by (simp add: os_system_world sample_world_def)
  have whole: "os_environ (snd (calc_eigen_from_1d sample_externals ''/tmp/work/similarity_matrix.1D'' 4
       ''/tmp/work/mask.nii'' sample_world)) ''MKL_NUM_THREADS'' = None"
    by (simp add: calc_eigen_from_1d_def os_system_def sample_externals_def sample_world_def
        split: prod.splits)
  from child parent whole show ?thesis by simp
qed

end
